theory Spec2Isabelle
  imports Main
begin

section \<open>JavaScript values and the runtime the handlers rely on\<close>

text \<open>
  Both components read untyped data: the result of \<open>JSON.parse\<close> is stored in reactive
  refs, compared with \<open>===\<close> and interpolated into template literals without any
  validation. The model therefore keeps the values as JavaScript has them. The number
  type is a parameter \<open>'n\<close>: nothing in the handlers computes with numbers, they are only
  stored, tested for truthiness and printed.

  \<open>JObj\<close> lists the own properties of a plain object, \<open>JArr\<close> the elements of an array.
\<close>

datatype 'n jsval =
    JUndefined
  | JNull
  | JBool bool
  | JNum 'n
  | JStr string
  | JArr "'n jsval list"
  | JObj "(string \<times> 'n jsval) list"

datatype js_error = TypeError | SyntaxError

text \<open>
  A handler either returns or lets an exception escape; in both cases the refs keep what
  was assigned before. \<open>Throw e s\<close> is an escaped exception \<open>e\<close> with the state \<open>s\<close> reached
  when it was raised.
\<close>

datatype 's completion = Normal 's | Throw js_error 's

fun state_of :: "'s completion \<Rightarrow> 's" where
  "state_of (Normal s) = s"
| "state_of (Throw e s) = s"

fun returns :: "'s completion \<Rightarrow> bool" where
  "returns (Normal s) = True"
| "returns (Throw e s) = False"

fun and_then :: "'s completion \<Rightarrow> ('s \<Rightarrow> 's completion) \<Rightarrow> 's completion" where
  "and_then (Normal s) f = f s"
| "and_then (Throw e s) f = Throw e s"

text \<open>
  What the browser supplies: \<open>JSON.parse\<close> (\<open>None\<close> when it throws its SyntaxError), the
  printing of a number, the numbers that are falsy (\<open>0\<close>, \<open>-0\<close>, \<open>NaN\<close>), and the URLs
  the \<open>WebSocket\<close> constructor accepts (it throws a SyntaxError on the others).
\<close>

record 'n runtime =
  JSON_parse :: "string \<Rightarrow> 'n jsval option"
  Number_toString :: "'n \<Rightarrow> string"
  Number_falsy :: "'n \<Rightarrow> bool"
  WebSocket_accepts :: "string \<Rightarrow> bool"

text \<open>
  Property read \<open>v.k\<close>. On \<open>null\<close> and \<open>undefined\<close> it throws a TypeError. On a plain
  object it yields the own property or \<open>undefined\<close>; on the other values \<open>undefined\<close>.
  The handlers read only \<open>type\<close>, \<open>script\<close>, \<open>data\<close>, \<open>code\<close>, \<open>signal\<close>, \<open>message\<close>,
  \<open>detail\<close> and \<open>status\<close>, none of which the built-in prototypes define.
\<close>

fun getProp :: "'n jsval \<Rightarrow> string \<Rightarrow> js_error + 'n jsval" where
  "getProp JUndefined k = Inl TypeError"
| "getProp JNull k = Inl TypeError"
| "getProp (JObj kvs) k = Inr (case map_of kvs k of None \<Rightarrow> JUndefined | Some v \<Rightarrow> v)"
| "getProp v k = Inr JUndefined"

text \<open>The same read where the value is already known not to be \<open>null\<close> or \<open>undefined\<close>.\<close>

definition propOf :: "'n jsval \<Rightarrow> string \<Rightarrow> 'n jsval" where
  "propOf v k = (case getProp v k of Inl e \<Rightarrow> JUndefined | Inr x \<Rightarrow> x)"

fun join_comma :: "(js_error + string) list \<Rightarrow> js_error + string" where
  "join_comma [] = Inr []"
| "join_comma [x] = x"
| "join_comma (Inl e # xs) = Inl e"
| "join_comma (Inr s # xs) =
     (case join_comma xs of Inl e \<Rightarrow> Inl e | Inr t \<Rightarrow> Inr (s @ '','' @ t))"

text \<open>
  The conversion a template literal applies to an interpolated value. An array joins its
  elements with commas, \<open>null\<close> and \<open>undefined\<close> elements printing as nothing. A plain
  object prints as \<open>[object Object]\<close>, unless it has an own property \<open>toString\<close>: a parsed
  value is never callable, the inherited \<open>valueOf\<close> returns the object itself, and the
  conversion throws a TypeError.
\<close>

fun ToString :: "('n \<Rightarrow> string) \<Rightarrow> 'n jsval \<Rightarrow> js_error + string" where
  "ToString f JUndefined = Inr ''undefined''"
| "ToString f JNull = Inr ''null''"
| "ToString f (JBool b) = Inr (if b then ''true'' else ''false'')"
| "ToString f (JNum n) = Inr (f n)"
| "ToString f (JStr s) = Inr s"
| "ToString f (JArr xs) =
     join_comma (map (\<lambda>x. if x = JUndefined \<or> x = JNull then Inr [] else ToString f x) xs)"
| "ToString f (JObj kvs) =
     (case map_of kvs ''toString'' of None \<Rightarrow> Inr ''[object Object]'' | Some v \<Rightarrow> Inl TypeError)"

text \<open>A template literal: its parts in order, the first conversion that throws wins.\<close>

fun template :: "(js_error + string) list \<Rightarrow> js_error + string" where
  "template [] = Inr []"
| "template (Inl e # ps) = Inl e"
| "template (Inr s # ps) = (case template ps of Inl e \<Rightarrow> Inl e | Inr t \<Rightarrow> Inr (s @ t))"

fun truthy :: "('n \<Rightarrow> bool) \<Rightarrow> 'n jsval \<Rightarrow> bool" where
  "truthy z JUndefined = False"
| "truthy z JNull = False"
| "truthy z (JBool b) = b"
| "truthy z (JNum n) = (\<not> z n)"
| "truthy z (JStr s) = (s \<noteq> [])"
| "truthy z (JArr xs) = True"
| "truthy z (JObj kvs) = True"

text \<open>\<open>a || b\<close>\<close>

definition js_or :: "('n \<Rightarrow> bool) \<Rightarrow> 'n jsval \<Rightarrow> 'n jsval \<Rightarrow> 'n jsval" where
  "js_or z a b = (if truthy z a then a else b)"

definition LF :: char where
  "LF = CHR 0x0A"

definition CR :: char where
  "CR = CHR 0x0D"

definition ESC :: char where
  "ESC = CHR 0x1B"

section \<open>The live console component\<close>

text \<open>
  \<open>readyState\<close> of the socket; \<open>ws = None\<close> is the ref holding \<open>null\<close>. The ready state is
  changed by the browser, never by the handlers.
\<close>

datatype readyState = CONNECTING | OPEN | CLOSING | CLOSED

text \<open>
  \<open>sessionState\<close> is a string ref that is only ever assigned the three literals
  \<open>'idle'\<close>, \<open>'running'\<close> and \<open>'exited'\<close>.
\<close>

datatype phase = Idle | Running | Exited

datatype log_kind = Stdout | Stderr | Info | Error

record 'n log_line =
  type :: log_kind
  data :: "'n jsval"

text \<open>
  The refs of the component. \<open>sent\<close> is not a ref: it records, in order, the objects
  handed to \<open>ws.send(JSON.stringify(...))\<close>.
\<close>

record 'n console =
  ws :: "readyState option"
  sent :: "'n jsval list"
  stdinData :: string
  selectedScript :: string
  isConnected :: bool
  sessionState :: phase
  scriptName :: "'n jsval"
  exitCode :: "'n jsval"
  lines :: "'n log_line list"

definition console_init :: "'n console" where
  "console_init =
     \<lparr>ws = None, sent = [], stdinData = [], selectedScript = ''start'',
      isConnected = False, sessionState = Idle, scriptName = JNull, exitCode = JNull,
      lines = []\<rparr>"

definition addLog :: "log_kind \<Rightarrow> 'n jsval \<Rightarrow> 'n console \<Rightarrow> 'n console" where
  "addLog t d s = s\<lparr>lines := lines s @ [\<lparr>type = t, data = d\<rparr>]\<rparr>"

text \<open>\<open>addLog\<close> with a template literal as payload: the literal is evaluated first.\<close>

definition addLogT ::
  "log_kind \<Rightarrow> (js_error + string) list \<Rightarrow> 'n console \<Rightarrow> 'n console completion" where
  "addLogT t parts s =
     (case template parts of
        Inl e \<Rightarrow> Throw e s
      | Inr str \<Rightarrow> Normal (addLog t (JStr str) s))"

definition onopen :: "'n console \<Rightarrow> 'n console" where
  "onopen s = s\<lparr>isConnected := True\<rparr>"

definition onclose :: "'n console \<Rightarrow> 'n console" where
  "onclose s =
     addLog Info (JStr ''WebSocket Disconnected.'')
       (s\<lparr>isConnected := False, sessionState := Idle, scriptName := JNull\<rparr>)"

definition onerror :: "'n console \<Rightarrow> 'n console" where
  "onerror s = addLog Error (JStr ''WebSocket connection error.'') s"

definition handleMessage ::
  "'n runtime \<Rightarrow> string \<Rightarrow> 'n console \<Rightarrow> 'n console completion" where
  "handleMessage rt rawData s =
     (case JSON_parse rt rawData of
        None \<Rightarrow> Normal (addLog Error (JStr (''Failed to parse JSON: '' @ rawData)) s)
      | Some msg \<Rightarrow>
         (case getProp msg ''type'' of
            Inl e \<Rightarrow> Throw e s
          | Inr t \<Rightarrow>
             if t = JStr ''ready'' then
               Normal (addLog Info (JStr ''Console ready. Select a script to start.'')
                 (s\<lparr>sessionState := Idle\<rparr>))
             else if t = JStr ''started'' then
               addLogT Info
                 [Inr ''--- Started script: '',
                  ToString (Number_toString rt) (propOf msg ''script''),
                  Inr '' ---'']
                 (s\<lparr>sessionState := Running, scriptName := propOf msg ''script'',
                    exitCode := JNull\<rparr>)
             else if t = JStr ''stdout'' then
               Normal (addLog Stdout (propOf msg ''data'') s)
             else if t = JStr ''stderr'' then
               Normal (addLog Stderr (propOf msg ''data'') s)
             else if t = JStr ''exit'' then
               addLogT Info
                 [Inr ''--- Process exited with code '',
                  ToString (Number_toString rt) (propOf msg ''code''),
                  Inr '' (Signal: '',
                  ToString (Number_toString rt)
                    (js_or (Number_falsy rt) (propOf msg ''signal'') (JStr ''none'')),
                  Inr '') ---'']
                 (s\<lparr>sessionState := Exited, exitCode := propOf msg ''code''\<rparr>)
             else if t = JStr ''error'' then
               addLogT Error
                 [Inr ''[BACKEND ERROR] '',
                  ToString (Number_toString rt) (propOf msg ''message''),
                  Inr (LF # ''Detail: ''),
                  ToString (Number_toString rt)
                    (js_or (Number_falsy rt) (propOf msg ''detail'') (JStr []))]
                 s
             else
               addLogT Error
                 [Inr ''Unknown message type: '', ToString (Number_toString rt) t]
                 s))"

definition sendWsMessage :: "'n jsval \<Rightarrow> 'n console \<Rightarrow> 'n console" where
  "sendWsMessage message s =
     (if ws s = Some OPEN then s\<lparr>sent := sent s @ [message]\<rparr>
      else addLog Error (JStr ''WebSocket is not connected.'') s)"

definition killProcess :: "'n console \<Rightarrow> 'n console" where
  "killProcess s =
     (if sessionState s \<noteq> Running then s
      else sendWsMessage (JObj [(''action'', JStr ''kill'')])
             (addLog Info (JStr ''Sending KILL signal...'') s))"

text \<open>\<open>confirmed\<close> is the answer of the \<open>confirm\<close> dialog, asked only while running.\<close>

definition startScript :: "bool \<Rightarrow> 'n console \<Rightarrow> 'n console" where
  "startScript confirmed s =
     (if sessionState s = Running \<and> \<not> confirmed then s
      else
        let s1 = (if sessionState s = Running then killProcess s else s);
            s2 = s1\<lparr>lines := []\<rparr>
        in sendWsMessage
             (JObj [(''action'', JStr ''start''), (''script'', JStr (selectedScript s2))]) s2)"

definition sendStdin :: "'n console \<Rightarrow> 'n console" where
  "sendStdin s =
     (if sessionState s \<noteq> Running \<or> stdinData s = [] then s
      else
        let data = stdinData s @ [LF];
            s1 = sendWsMessage (JObj [(''action'', JStr ''stdin''), (''data'', JStr data)]) s;
            s2 = addLog Info (JStr (''> '' @ stdinData s1)) s1
        in s2\<lparr>stdinData := []\<rparr>)"

section \<open>The maintenance panel\<close>

text \<open>
  The panel has no log list: it writes to an xterm terminal, which is \<open>null\<close> until it has
  been set up. \<open>terminal = Some ops\<close> holds, in order, the calls made on the terminal
  object (the source's variable \<open>term\<close>); every call is guarded by \<open>term?.\<close> or
  \<open>if(term)\<close>, and the arguments of a guarded call are not evaluated when there is no
  terminal.
\<close>

datatype 'n term_op = Writeln string | Write "'n jsval" | Reset

text \<open>
  What \<open>apiClient.getStatus()\<close> resolves to: \<open>{ok: true, data}\<close>, or the value its
  \<open>catch\<close> returns, on which \<open>ok\<close> is not true.
\<close>

datatype 'n api_response = ApiOk "'n jsval" | ApiFailed "'n jsval"

text \<open>
  The refs of the panel. \<open>panel_sent\<close> records the objects handed to
  \<open>ws.send(JSON.stringify(...))\<close>, \<open>statusQueries\<close> counts the calls of
  \<open>apiClient.getStatus()\<close>.
\<close>

record 'n panel =
  panel_ws :: "readyState option"
  panel_sent :: "'n jsval list"
  status :: "'n jsval"
  loadingAction :: "string option"
  lastResponse :: "'n api_response option"
  isWsConnected :: bool
  panel_sessionState :: phase
  terminal :: "'n term_op list option"
  statusQueries :: nat

definition panel_init :: "'n panel" where
  "panel_init =
     \<lparr>panel_ws = None, panel_sent = [], status = JStr ''unknown'', loadingAction = None,
      lastResponse = None, isWsConnected = False, panel_sessionState = Idle,
      terminal = None, statusQueries = 0\<rparr>"

definition termCall :: "'n term_op \<Rightarrow> 'n panel \<Rightarrow> 'n panel" where
  "termCall c s =
     (case terminal s of None \<Rightarrow> s | Some ops \<Rightarrow> s\<lparr>terminal := Some (ops @ [c])\<rparr>)"

text \<open>A guarded call whose argument is a template literal.\<close>

definition termCallT ::
  "(string \<Rightarrow> 'n term_op) \<Rightarrow> (js_error + string) list \<Rightarrow> 'n panel \<Rightarrow> 'n panel completion"
  where
  "termCallT c parts s =
     (case terminal s of
        None \<Rightarrow> Normal s
      | Some ops \<Rightarrow>
         (case template parts of
            Inl e \<Rightarrow> Throw e s
          | Inr str \<Rightarrow> Normal (s\<lparr>terminal := Some (ops @ [c str])\<rparr>)))"

text \<open>
  \<open>checkStatus\<close> is asynchronous. Calling it runs it up to its \<open>await\<close>: the loading
  marker is set and the query is issued. \<open>checkStatus_resume\<close> is the rest, run when the
  query has resolved to \<open>response\<close>.
\<close>

definition checkStatus :: "'n panel \<Rightarrow> 'n panel" where
  "checkStatus s = s\<lparr>loadingAction := Some ''status'', statusQueries := Suc (statusQueries s)\<rparr>"

definition checkStatus_resume :: "'n api_response \<Rightarrow> 'n panel \<Rightarrow> 'n panel completion" where
  "checkStatus_resume response s =
     (case response of
        ApiOk d \<Rightarrow>
         (case getProp d ''status'' of
            Inl e \<Rightarrow> Throw e s
          | Inr v \<Rightarrow> Normal (s\<lparr>status := v, loadingAction := None\<rparr>))
      | ApiFailed err \<Rightarrow>
         Normal (s\<lparr>status := JStr ''error'', lastResponse := Some response,
                   loadingAction := None\<rparr>))"

text \<open>\<open>config.public.apiUrl.replace(/^http/, 'ws') + `/ws/exec`\<close>\<close>

definition wsUrl :: "string \<Rightarrow> string" where
  "wsUrl apiUrl =
     (if take 4 apiUrl = ''http'' then ''ws'' @ drop 4 apiUrl else apiUrl) @ ''/ws/exec''"

text \<open>
  \<open>connectWebSocket\<close>. Closing the previous socket acts on that socket only; the ref then
  holds the new one, which starts in \<open>CONNECTING\<close>.
\<close>

definition connectWebSocket :: "'n runtime \<Rightarrow> string \<Rightarrow> 'n panel \<Rightarrow> 'n panel completion" where
  "connectWebSocket rt apiUrl s =
     (let s1 = termCall (Writeln (''Connecting to '' @ wsUrl apiUrl @ ''...'')) s
      in if WebSocket_accepts rt (wsUrl apiUrl) then Normal (s1\<lparr>panel_ws := Some CONNECTING\<rparr>)
         else Throw SyntaxError s1)"

definition panel_onopen :: "'n panel \<Rightarrow> 'n panel" where
  "panel_onopen s =
     termCall (Writeln ([CR, LF, ESC] @ ''[32mWebSocket Connected.'' @ [ESC] @ ''[0m''))
       (s\<lparr>isWsConnected := True\<rparr>)"

definition panel_onclose :: "'n panel \<Rightarrow> 'n panel" where
  "panel_onclose s =
     checkStatus
       (termCall (Writeln ([CR, LF, ESC] @ ''[31mWebSocket Disconnected.'' @ [ESC] @ ''[0m''))
          (s\<lparr>isWsConnected := False, panel_sessionState := Idle\<rparr>))"

definition panel_onerror :: "'n panel \<Rightarrow> 'n panel" where
  "panel_onerror s =
     termCall (Writeln ([CR, LF, ESC] @ ''[31mWebSocket connection error.'' @ [ESC] @ ''[0m'')) s"

definition handleWsMessage ::
  "'n runtime \<Rightarrow> string \<Rightarrow> 'n panel \<Rightarrow> 'n panel completion" where
  "handleWsMessage rt rawData s =
     (case JSON_parse rt rawData of
        None \<Rightarrow>
         termCallT Writeln
           [Inr ([CR, LF, ESC] @ ''[31m[ERROR] Failed to parse JSON: ''), Inr rawData,
            Inr ([ESC] @ ''[0m'')] s
      | Some msg \<Rightarrow>
         (case getProp msg ''type'' of
            Inl e \<Rightarrow> Throw e s
          | Inr t \<Rightarrow>
             if t = JStr ''ready'' then
               Normal (termCall (Writeln ([CR, LF, ESC] @ ''[32mConsole is ready.'' @ [ESC] @ ''[0m''))
                 (s\<lparr>panel_sessionState := Idle\<rparr>))
             else if t = JStr ''started'' then
               termCallT Writeln
                 [Inr ([CR, LF, ESC] @ ''[33m--- Starting script: ''),
                  ToString (Number_toString rt) (propOf msg ''script''),
                  Inr ('' ---'' @ [ESC] @ ''[0m'' @ [CR, LF])]
                 (s\<lparr>panel_sessionState := Running\<rparr>)
             else if t = JStr ''stdout'' then
               Normal (termCall (Write (propOf msg ''data'')) s)
             else if t = JStr ''stderr'' then
               termCallT (\<lambda>str. Write (JStr str))
                 [Inr ([ESC] @ ''[31m''),
                  ToString (Number_toString rt) (propOf msg ''data''),
                  Inr ([ESC] @ ''[0m'')] s
             else if t = JStr ''exit'' then
               and_then
                 (termCallT Writeln
                    [Inr ([CR, LF, ESC] @ ''[33m--- Process exited with code ''),
                     ToString (Number_toString rt) (propOf msg ''code''),
                     Inr ('' ---'' @ [ESC] @ ''[0m'')]
                    (s\<lparr>panel_sessionState := Exited\<rparr>))
                 (\<lambda>s1. Normal (checkStatus s1))
             else if t = JStr ''error'' then
               and_then
                 (termCallT Writeln
                    [Inr ([CR, LF, ESC] @ ''[31m[BACKEND ERROR] ''),
                     ToString (Number_toString rt) (propOf msg ''message''),
                     Inr ([ESC] @ ''[0m'')] s)
                 (\<lambda>s1. and_then
                    (if truthy (Number_falsy rt) (propOf msg ''detail'') then
                       termCallT Writeln
                         [Inr ([ESC] @ ''[31m  Detail: ''),
                          ToString (Number_toString rt) (propOf msg ''detail''),
                          Inr ([ESC] @ ''[0m'')] s1
                     else Normal s1)
                    (\<lambda>s2. Normal (s2\<lparr>panel_sessionState := Exited\<rparr>)))
             else Normal s))"

definition panel_sendWsMessage :: "'n jsval \<Rightarrow> 'n panel \<Rightarrow> 'n panel" where
  "panel_sendWsMessage message s =
     (if panel_ws s = Some OPEN then s\<lparr>panel_sent := panel_sent s @ [message]\<rparr>
      else termCall
             (Writeln ([CR, LF, ESC] @ ''[31m[Error] WebSocket is not connected.'' @ [ESC] @ ''[0m''))
             s)"

text \<open>The listener registered with \<open>term.onData\<close>; \<open>d\<close> is the chunk the terminal reports.\<close>

definition onData :: "string \<Rightarrow> 'n panel \<Rightarrow> 'n panel" where
  "onData d s =
     (if panel_sessionState s = Running \<and> isWsConnected s then
        panel_sendWsMessage (JObj [(''action'', JStr ''stdin''), (''data'', JStr d)]) s
      else s)"

definition onStart :: "'n panel \<Rightarrow> 'n panel" where
  "onStart s =
     (if panel_sessionState s = Running then s
      else checkStatus
             (panel_sendWsMessage
                (JObj [(''action'', JStr ''start''), (''script'', JStr ''start-interactive'')])
                (termCall Reset s)))"

definition onStop :: "'n panel \<Rightarrow> 'n panel" where
  "onStop s =
     (if panel_sessionState s = Running then
        panel_sendWsMessage (JObj [(''action'', JStr ''stdin''), (''data'', JStr (''stop'' @ [LF]))]) s
      else
        panel_sendWsMessage (JObj [(''action'', JStr ''start''), (''script'', JStr ''stop'')])
          (termCall Reset s))"

definition onRestart :: "'n panel \<Rightarrow> 'n panel" where
  "onRestart s =
     (if panel_sessionState s = Running then s
      else panel_sendWsMessage (JObj [(''action'', JStr ''start''), (''script'', JStr ''restart'')])
             (termCall Reset s))"

definition onUpdate :: "'n panel \<Rightarrow> 'n panel" where
  "onUpdate s =
     (if panel_sessionState s = Running then s
      else panel_sendWsMessage (JObj [(''action'', JStr ''start''), (''script'', JStr ''update'')])
             (termCall Reset s))"

text \<open>
  \<open>onMounted\<close>, from the point where the awaited terminal setup has finished:
  \<open>checkStatus()\<close> and then \<open>connectWebSocket()\<close>.
\<close>

definition onMounted :: "'n runtime \<Rightarrow> string \<Rightarrow> 'n panel \<Rightarrow> 'n panel completion" where
  "onMounted rt apiUrl s = connectWebSocket rt apiUrl (checkStatus s)"

section \<open>A runtime for concrete traffic\<close>

text \<open>
  Decimal printing of an integer, as \<open>Number.prototype.toString\<close> prints the integers
  below \<open>10^21\<close> in absolute value.
\<close>

fun show_nat :: "nat \<Rightarrow> string" where
  "show_nat n =
     (if n < 10 then [char_of (48 + n)] else show_nat (n div 10) @ [char_of (48 + n mod 10)])"

definition show_int :: "int \<Rightarrow> string" where
  "show_int i = (if i < 0 then CHR ''-'' # show_nat (nat (- i)) else show_nat (nat i))"

text \<open>
  \<open>JSON.parse\<close> on the frames used below: each listed text with the value the browser
  parses it to. The text \<open>{not json\<close> is one of those that do not parse.
\<close>

definition example_parse :: "string \<Rightarrow> int jsval option" where
  \<open>example_parse raw =
     (if raw = ''null'' then Some JNull
      else if raw = ''{"type":"ready"}'' then Some (JObj [(''type'', JStr ''ready'')])
      else if raw = ''{"type":"started","script":"update"}'' then
        Some (JObj [(''type'', JStr ''started''), (''script'', JStr ''update'')])
      else if raw = ''{"type":"exit","code":1}'' then
        Some (JObj [(''type'', JStr ''exit''), (''code'', JNum 1)])
      else if raw = ''{"type":"error","message":"boom"}'' then
        Some (JObj [(''type'', JStr ''error''), (''message'', JStr ''boom'')])
      else if raw = ''{"type":"ping"}'' then Some (JObj [(''type'', JStr ''ping'')])
      else None)\<close>

definition example_runtime :: "int runtime" where
  "example_runtime =
     \<lparr>JSON_parse = example_parse, Number_toString = show_int, Number_falsy = (\<lambda>i. i = 0),
      WebSocket_accepts = (\<lambda>url. take 5 url = ''ws://'' \<or> take 6 url = ''wss://'')\<rparr>"

section \<open>Event delivery and the template's guards\<close>

text \<open>
  \<open>ws.onmessage = (event) => handleMessage(event.data)\<close>: an exception that escapes the
  handler ends that callback only, and the refs keep what was assigned before it.
\<close>

definition onmessage :: "'n runtime \<Rightarrow> string \<Rightarrow> 'n console \<Rightarrow> 'n console" where
  "onmessage rt rawData s = state_of (handleMessage rt rawData s)"

text \<open>
  The stdin bar of the console template,
  \<open><input @keydown.enter="sendStdin" :disabled="sessionState !== 'running' || !isConnected">\<close>:
  a disabled input receives no key events.
\<close>

definition stdin_keydown_enter :: "'n console \<Rightarrow> 'n console" where
  "stdin_keydown_enter s =
     (if sessionState s \<noteq> Running \<or> \<not> isConnected s then s else sendStdin s)"

section \<open>Facts about the handlers\<close>

subsection \<open>Decoding\<close>

text \<open>A text that does not parse is logged once as an error and nothing else changes.\<close>

lemma handleMessage_parse_failure:
  "JSON_parse rt raw = None \<Longrightarrow>
   handleMessage rt raw s = Normal (addLog Error (JStr (''Failed to parse JSON: '' @ raw)) s)"
  by (simp add: handleMessage_def)

text \<open>
  \<open>null\<close> parses, and reading \<open>msg.type\<close> on it throws outside the \<open>try\<close> block, in both
  components.
\<close>

lemma handleMessage_nullish:
  "JSON_parse rt raw = Some JNull \<Longrightarrow> handleMessage rt raw s = Throw TypeError s"
  by (simp add: handleMessage_def)

lemma handleWsMessage_nullish:
  "JSON_parse rt raw = Some JNull \<Longrightarrow> handleWsMessage rt raw p = Throw TypeError p"
  by (simp add: handleWsMessage_def)

text \<open>
  A discriminator outside the six known ones: the console logs it as an error, the panel
  has no \<open>default\<close> branch and does nothing.
\<close>

lemma handleMessage_unknown_type:
  assumes "JSON_parse rt raw = Some msg" and "getProp msg ''type'' = Inr (JStr t)"
    and "t \<notin> {''ready'', ''started'', ''stdout'', ''stderr'', ''exit'', ''error''}"
  shows "handleMessage rt raw s = Normal (addLog Error (JStr (''Unknown message type: '' @ t)) s)"
  using assms by (simp add: handleMessage_def addLogT_def)

lemma handleWsMessage_unknown_type:
  assumes "JSON_parse rt raw = Some msg" and "getProp msg ''type'' = Inr (JStr t)"
    and "t \<notin> {''ready'', ''started'', ''stdout'', ''stderr'', ''exit'', ''error''}"
  shows "handleWsMessage rt raw p = Normal p"
  using assms by (simp add: handleWsMessage_def)

subsection \<open>Closing and backend errors\<close>

lemma onclose_effect:
  "sessionState (onclose s) = Idle \<and> scriptName (onclose s) = JNull \<and> \<not> isConnected (onclose s)
   \<and> exitCode (onclose s) = exitCode s
   \<and> lines (onclose s) = lines s @ [\<lparr>type = Info, data = JStr ''WebSocket Disconnected.''\<rparr>]"
  by (simp add: onclose_def addLog_def)

lemma handleMessage_error_keeps_phase:
  assumes "JSON_parse rt raw = Some msg" and "getProp msg ''type'' = Inr (JStr ''error'')"
  shows "sessionState (state_of (handleMessage rt raw s)) = sessionState s"
  using assms
  by (auto simp add: handleMessage_def addLogT_def addLog_def split: sum.splits)

subsection \<open>The panel's terminal and status query\<close>

lemma termCall_keeps:
  "panel_sessionState (termCall c p) = panel_sessionState p"
  "statusQueries (termCall c p) = statusQueries p"
  "panel_sent (termCall c p) = panel_sent p"
  by (simp_all add: termCall_def split: option.split)

lemma termCallT_keeps:
  "panel_sessionState (state_of (termCallT c parts p)) = panel_sessionState p"
  "statusQueries (state_of (termCallT c parts p)) = statusQueries p"
  "panel_sent (state_of (termCallT c parts p)) = panel_sent p"
  by (simp_all add: termCallT_def split: option.split sum.split)

lemma checkStatus_effect:
  "statusQueries (checkStatus p) = Suc (statusQueries p)"
  "panel_sessionState (checkStatus p) = panel_sessionState p"
  by (simp_all add: checkStatus_def)

lemma checkStatus_resume_keeps_phase:
  "panel_sessionState (state_of (checkStatus_resume response p)) = panel_sessionState p"
  by (simp add: checkStatus_resume_def split: api_response.split sum.split)

lemma checkStatus_resume_failure:
  "checkStatus_resume (ApiFailed err) p =
     Normal (p\<lparr>status := JStr ''error'', lastResponse := Some (ApiFailed err),
               loadingAction := None\<rparr>)"
  by (simp add: checkStatus_resume_def)

lemma onMounted_polls:
  "statusQueries (state_of (onMounted rt apiUrl p)) = Suc (statusQueries p)"
  by (simp add: onMounted_def connectWebSocket_def Let_def termCall_keeps checkStatus_effect)

lemma panel_onclose_polls:
  "statusQueries (panel_onclose p) = Suc (statusQueries p)
   \<and> panel_sessionState (panel_onclose p) = Idle"
  by (simp add: panel_onclose_def termCall_keeps checkStatus_effect)

lemma handleWsMessage_exit_polls:
  assumes "JSON_parse rt raw = Some msg" and "getProp msg ''type'' = Inr (JStr ''exit'')"
    and "returns (handleWsMessage rt raw p)"
  shows "statusQueries (state_of (handleWsMessage rt raw p)) = Suc (statusQueries p)
         \<and> panel_sessionState (state_of (handleWsMessage rt raw p)) = Exited"
  using assms
  by (auto simp add: handleWsMessage_def termCallT_def checkStatus_def
      split: option.splits sum.splits)

lemma handleWsMessage_error_never_polls:
  assumes "JSON_parse rt raw = Some msg" and "getProp msg ''type'' = Inr (JStr ''error'')"
  shows "statusQueries (state_of (handleWsMessage rt raw p)) = statusQueries p"
  using assms
  by (auto simp add: handleWsMessage_def termCallT_def
      split: option.splits sum.splits)

lemma handleWsMessage_error_exits:
  assumes "JSON_parse rt raw = Some msg" and "getProp msg ''type'' = Inr (JStr ''error'')"
    and "returns (handleWsMessage rt raw p)"
  shows "panel_sessionState (state_of (handleWsMessage rt raw p)) = Exited"
  using assms
  by (auto simp add: handleWsMessage_def termCallT_def
      split: option.splits sum.splits if_splits)

section \<open>The claims\<close>

text \<open>
  C1. A backend error frame (discriminator \<open>error\<close>) is claimed to move every phase to
  Exited and to append an error entry, so that the phase is never Running afterwards.
  The panel does so (\<open>handleWsMessage_error_exits\<close>). The console's handler only logs:
  from Running, the frame \<open>{"type":"error","message":"boom"}\<close> appends the error entry
  and leaves the phase Running.
\<close>

theorem console_backend_error_stays_running:
  \<open>handleMessage example_runtime ''{"type":"error","message":"boom"}''
     (console_init\<lparr>ws := Some OPEN, isConnected := True, sessionState := Running\<rparr>)
   = Normal (console_init\<lparr>ws := Some OPEN, isConnected := True, sessionState := Running,
       lines := [\<lparr>type = Error, data = JStr (''[BACKEND ERROR] boom'' @ [LF] @ ''Detail: '')\<rparr>]\<rparr>)\<close>
  by (simp add: handleMessage_def example_runtime_def example_parse_def console_init_def
      addLogT_def addLog_def propOf_def js_or_def)

text \<open>
  C2. When the transport closes, the phase is claimed to become Idle and the script name,
  the exit code and the exit signal to be cleared. After a script has started and exited
  with code 1, the console's close handler leaves the exit code at 1.
\<close>

theorem console_close_keeps_exit_code:
  \<open>exitCode (onclose (onmessage example_runtime ''{"type":"exit","code":1}''
       (onmessage example_runtime ''{"type":"started","script":"update"}''
          (onopen (console_init\<lparr>ws := Some OPEN\<rparr>))))) = JNum 1\<close>
  by (simp add: onmessage_def handleMessage_def example_runtime_def example_parse_def
      console_init_def addLogT_def addLog_def propOf_def js_or_def onopen_def onclose_def
      show_int_def)

text \<open>
  C2, as the handlers have it: from every prior state, with no exit event needed, closing
  sets the phase to Idle, clears the script name, marks the console disconnected and
  appends one info entry; the panel's handler sets its phase to Idle and marks the panel
  disconnected. Neither component stores an exit signal.
\<close>

theorem close_resets_phase_and_script:
  "sessionState (onclose s) = Idle
   \<and> scriptName (onclose s) = JNull
   \<and> \<not> isConnected (onclose s)
   \<and> lines (onclose s) = lines s @ [\<lparr>type = Info, data = JStr ''WebSocket Disconnected.''\<rparr>]
   \<and> panel_sessionState (panel_onclose p) = Idle
   \<and> \<not> isWsConnected (panel_onclose p)"
  by (simp add: onclose_def addLog_def panel_onclose_def checkStatus_def termCall_def
      split: option.split)

text \<open>
  C3. A ready frame is claimed to set the phase to Idle and to clear the script name and
  the exit code. After \<open>started{script:"update"}\<close> and \<open>exit{code:1}\<close>, a ready frame
  sets the phase to Idle and leaves the script name \<open>update\<close> and the exit code 1.
\<close>

theorem ready_keeps_script_and_exit_code:
  \<open>sessionState (onmessage example_runtime ''{"type":"ready"}''
      (onmessage example_runtime ''{"type":"exit","code":1}''
        (onmessage example_runtime ''{"type":"started","script":"update"}''
          (onopen (console_init\<lparr>ws := Some OPEN\<rparr>))))) = Idle
   \<and> scriptName (onmessage example_runtime ''{"type":"ready"}''
      (onmessage example_runtime ''{"type":"exit","code":1}''
        (onmessage example_runtime ''{"type":"started","script":"update"}''
          (onopen (console_init\<lparr>ws := Some OPEN\<rparr>))))) = JStr ''update''
   \<and> exitCode (onmessage example_runtime ''{"type":"ready"}''
      (onmessage example_runtime ''{"type":"exit","code":1}''
        (onmessage example_runtime ''{"type":"started","script":"update"}''
          (onopen (console_init\<lparr>ws := Some OPEN\<rparr>))))) = JNum 1\<close>
  by (simp add: onmessage_def handleMessage_def example_runtime_def example_parse_def
      console_init_def addLogT_def addLog_def propOf_def js_or_def onopen_def
      show_int_def)

text \<open>
  C3, as the handlers have it: for every current state a ready frame sets the phase to
  Idle and appends one info entry; the script name and the exit code stay as they were.
  The panel's handler returns with its phase Idle.
\<close>

theorem ready_sets_idle_only:
  assumes "JSON_parse rt raw = Some msg" and "getProp msg ''type'' = Inr (JStr ''ready'')"
  shows "handleMessage rt raw s =
           Normal (s\<lparr>sessionState := Idle,
                     lines := lines s @
                       [\<lparr>type = Info, data = JStr ''Console ready. Select a script to start.''\<rparr>]\<rparr>)
         \<and> scriptName (onmessage rt raw s) = scriptName s
         \<and> exitCode (onmessage rt raw s) = exitCode s
         \<and> returns (handleWsMessage rt raw p)
         \<and> panel_sessionState (state_of (handleWsMessage rt raw p)) = Idle"
  using assms
  by (simp add: handleMessage_def handleWsMessage_def onmessage_def addLog_def termCall_def
      split: option.split)

theorem ready_sets_idle_only_witness:
  \<open>JSON_parse example_runtime ''{"type":"ready"}'' = Some (JObj [(''type'', JStr ''ready'')])
   \<and> getProp (JObj [(''type'', JStr ''ready'')] :: int jsval) ''type'' = Inr (JStr ''ready'')
   \<and> scriptName (onmessage example_runtime ''{"type":"ready"}''
        (console_init\<lparr>sessionState := Exited, scriptName := JStr ''update'', exitCode := JNum 1\<rparr>))
      = JStr ''update''
   \<and> panel_sessionState (state_of (handleWsMessage example_runtime ''{"type":"ready"}''
        (panel_init\<lparr>panel_sessionState := Exited\<rparr>))) = Idle\<close>
  using ready_sets_idle_only [of example_runtime \<open>''{"type":"ready"}''\<close>
      "JObj [(''type'', JStr ''ready'')]"
      "console_init\<lparr>sessionState := Exited, scriptName := JStr ''update'', exitCode := JNum 1\<rparr>"
      "panel_init\<lparr>panel_sessionState := Exited\<rparr>"]
  by (simp add: example_runtime_def example_parse_def)

text \<open>
  C4. An action rejected for the current phase is claimed to produce an error log entry or
  an error return value, and to send no frame. Send-input while Idle returns with the
  state as it was: no frame, and no log entry either.
\<close>

theorem rejected_send_input_is_silent:
  "sessionState (console_init\<lparr>ws := Some OPEN, isConnected := True, stdinData := ''say hi''\<rparr>
      :: int console) \<noteq> Running
   \<and> sendStdin (console_init\<lparr>ws := Some OPEN, isConnected := True, stdinData := ''say hi''\<rparr>
      :: int console)
     = console_init\<lparr>ws := Some OPEN, isConnected := True, stdinData := ''say hi''\<rparr>
   \<and> lines (sendStdin (console_init\<lparr>ws := Some OPEN, isConnected := True, stdinData := ''say hi''\<rparr>
      :: int console)) = []"
  by (simp add: sendStdin_def console_init_def)

text \<open>
  C4, as the handlers have it: an action rejected for the current phase changes nothing,
  so no frame is sent and no log entry is written. This holds for send-input and kill
  while not Running, send-input with an empty buffer, start while Running with the
  confirmation denied, and the panel's start, restart and update while Running.
\<close>

theorem rejected_actions_change_nothing:
  "(sessionState s \<noteq> Running \<longrightarrow> sendStdin s = s \<and> killProcess s = s)
   \<and> (stdinData s = [] \<longrightarrow> sendStdin s = s)
   \<and> (sessionState s = Running \<longrightarrow> startScript False s = s)
   \<and> (panel_sessionState p = Running \<longrightarrow> onStart p = p \<and> onRestart p = p \<and> onUpdate p = p)"
  by (simp add: sendStdin_def killProcess_def startScript_def onStart_def onRestart_def
      onUpdate_def)

theorem rejected_actions_change_nothing_witness:
  "sessionState (console_init\<lparr>stdinData := ''say hi''\<rparr> :: int console) \<noteq> Running
   \<and> sendStdin (console_init\<lparr>stdinData := ''say hi''\<rparr> :: int console)
       = console_init\<lparr>stdinData := ''say hi''\<rparr>
   \<and> killProcess (console_init\<lparr>stdinData := ''say hi''\<rparr> :: int console)
       = console_init\<lparr>stdinData := ''say hi''\<rparr>
   \<and> sessionState (console_init\<lparr>ws := Some OPEN, sessionState := Running\<rparr> :: int console) = Running
   \<and> stdinData (console_init\<lparr>ws := Some OPEN, sessionState := Running\<rparr> :: int console) = []
   \<and> sendStdin (console_init\<lparr>ws := Some OPEN, sessionState := Running\<rparr> :: int console)
       = console_init\<lparr>ws := Some OPEN, sessionState := Running\<rparr>
   \<and> startScript False (console_init\<lparr>ws := Some OPEN, sessionState := Running\<rparr> :: int console)
       = console_init\<lparr>ws := Some OPEN, sessionState := Running\<rparr>
   \<and> panel_sessionState (panel_init\<lparr>panel_ws := Some OPEN, panel_sessionState := Running\<rparr>
        :: int panel) = Running
   \<and> onStart (panel_init\<lparr>panel_ws := Some OPEN, panel_sessionState := Running\<rparr> :: int panel)
       = panel_init\<lparr>panel_ws := Some OPEN, panel_sessionState := Running\<rparr>
   \<and> onUpdate (panel_init\<lparr>panel_ws := Some OPEN, panel_sessionState := Running\<rparr> :: int panel)
       = panel_init\<lparr>panel_ws := Some OPEN, panel_sessionState := Running\<rparr>"
  using rejected_actions_change_nothing
      [of "console_init\<lparr>stdinData := ''say hi''\<rparr> :: int console"
          "panel_init\<lparr>panel_ws := Some OPEN, panel_sessionState := Running\<rparr> :: int panel"]
    rejected_actions_change_nothing
      [of "console_init\<lparr>ws := Some OPEN, sessionState := Running\<rparr> :: int console"
          "panel_init\<lparr>panel_ws := Some OPEN, panel_sessionState := Running\<rparr> :: int panel"]
  by (simp add: console_init_def panel_init_def)

text \<open>
  C5. Send-input is claimed to be performed only when the phase is Running, the connection
  is up and the input buffer is not empty. With the phase Running, the console marked
  connected, the buffer holding \<open>say hi\<close> and the socket in \<open>CLOSING\<close>, the action goes
  ahead without a connection: no frame is sent, an error entry is appended, the input is
  echoed as an info entry all the same, and the buffer is emptied. The stdin bar lets the
  key through in that state.
\<close>

theorem sendStdin_closing_socket:
  "sessionState (console_init\<lparr>ws := Some CLOSING, isConnected := True, sessionState := Running,
       stdinData := ''say hi''\<rparr> :: int console) = Running
   \<and> isConnected (console_init\<lparr>ws := Some CLOSING, isConnected := True, sessionState := Running,
       stdinData := ''say hi''\<rparr> :: int console)
   \<and> ws (console_init\<lparr>ws := Some CLOSING, isConnected := True, sessionState := Running,
       stdinData := ''say hi''\<rparr> :: int console) \<noteq> Some OPEN
   \<and> sendStdin (console_init\<lparr>ws := Some CLOSING, isConnected := True, sessionState := Running,
       stdinData := ''say hi''\<rparr> :: int console)
     = console_init\<lparr>ws := Some CLOSING, isConnected := True, sessionState := Running,
         stdinData := [],
         lines := [\<lparr>type = Error, data = JStr ''WebSocket is not connected.''\<rparr>,
                   \<lparr>type = Info, data = JStr ''> say hi''\<rparr>]\<rparr>
   \<and> stdin_keydown_enter (console_init\<lparr>ws := Some CLOSING, isConnected := True,
       sessionState := Running, stdinData := ''say hi''\<rparr> :: int console)
     = console_init\<lparr>ws := Some CLOSING, isConnected := True, sessionState := Running,
         stdinData := [],
         lines := [\<lparr>type = Error, data = JStr ''WebSocket is not connected.''\<rparr>,
                   \<lparr>type = Info, data = JStr ''> say hi''\<rparr>]\<rparr>"
  by (simp add: sendStdin_def sendWsMessage_def addLog_def stdin_keydown_enter_def
      console_init_def)

text \<open>
  C5, as the function has it: send-input is performed only when the phase is Running and
  the input buffer is not empty; with another phase or an empty buffer it changes nothing.
  When performed with the socket open, it transmits one \<open>stdin\<close> frame carrying the input
  followed by a newline, echoes the input without the newline, behind the prompt \<open>> \<close>,
  as an info entry, and empties the buffer. When performed with the socket not open, it
  transmits nothing, appends the error entry of the send routine, then the same echo,
  and empties the buffer. The stdin bar passes no key while the phase is not Running or
  the console is not marked connected.
\<close>

theorem sendStdin_cases:
  "(sessionState s \<noteq> Running \<or> stdinData s = [] \<longrightarrow> sendStdin s = s)
   \<and> (sessionState s = Running \<and> stdinData s \<noteq> [] \<and> ws s = Some OPEN \<longrightarrow>
        sendStdin s =
          s\<lparr>sent := sent s @
                [JObj [(''action'', JStr ''stdin''), (''data'', JStr (stdinData s @ [LF]))]],
             lines := lines s @ [\<lparr>type = Info, data = JStr (''> '' @ stdinData s)\<rparr>],
             stdinData := []\<rparr>)
   \<and> (sessionState s = Running \<and> stdinData s \<noteq> [] \<and> ws s \<noteq> Some OPEN \<longrightarrow>
        sendStdin s =
          s\<lparr>lines := lines s @
                [\<lparr>type = Error, data = JStr ''WebSocket is not connected.''\<rparr>,
                 \<lparr>type = Info, data = JStr (''> '' @ stdinData s)\<rparr>],
             stdinData := []\<rparr>)
   \<and> (sessionState s \<noteq> Running \<or> \<not> isConnected s \<longrightarrow> stdin_keydown_enter s = s)"
  by (simp add: sendStdin_def sendWsMessage_def addLog_def stdin_keydown_enter_def Let_def)

theorem sendStdin_cases_witness:
  "sessionState (console_init\<lparr>ws := Some OPEN, isConnected := True, sessionState := Running,
       stdinData := ''say hi''\<rparr> :: int console) = Running
   \<and> stdinData (console_init\<lparr>ws := Some OPEN, isConnected := True, sessionState := Running,
       stdinData := ''say hi''\<rparr> :: int console) \<noteq> []
   \<and> ws (console_init\<lparr>ws := Some OPEN, isConnected := True, sessionState := Running,
       stdinData := ''say hi''\<rparr> :: int console) = Some OPEN
   \<and> sendStdin (console_init\<lparr>ws := Some OPEN, isConnected := True, sessionState := Running,
       stdinData := ''say hi''\<rparr> :: int console)
     = console_init\<lparr>ws := Some OPEN, isConnected := True, sessionState := Running,
         stdinData := [],
         sent := [JObj [(''action'', JStr ''stdin''), (''data'', JStr (''say hi'' @ [LF]))]],
         lines := [\<lparr>type = Info, data = JStr ''> say hi''\<rparr>]\<rparr>
   \<and> ws (console_init\<lparr>ws := Some CLOSING, isConnected := True, sessionState := Running,
       stdinData := ''say hi''\<rparr> :: int console) \<noteq> Some OPEN
   \<and> sent (sendStdin (console_init\<lparr>ws := Some CLOSING, isConnected := True,
       sessionState := Running, stdinData := ''say hi''\<rparr> :: int console)) = []
   \<and> lines (sendStdin (console_init\<lparr>ws := Some CLOSING, isConnected := True,
       sessionState := Running, stdinData := ''say hi''\<rparr> :: int console))
     = [\<lparr>type = Error, data = JStr ''WebSocket is not connected.''\<rparr>,
        \<lparr>type = Info, data = JStr ''> say hi''\<rparr>]
   \<and> stdinData (console_init\<lparr>ws := Some OPEN, isConnected := True, sessionState := Running\<rparr>
       :: int console) = []
   \<and> sendStdin (console_init\<lparr>ws := Some OPEN, isConnected := True, sessionState := Running\<rparr>
       :: int console)
     = console_init\<lparr>ws := Some OPEN, isConnected := True, sessionState := Running\<rparr>
   \<and> \<not> isConnected (console_init\<lparr>ws := Some CLOSED, sessionState := Running,
       stdinData := ''say hi''\<rparr> :: int console)
   \<and> stdin_keydown_enter (console_init\<lparr>ws := Some CLOSED, sessionState := Running,
       stdinData := ''say hi''\<rparr> :: int console)
     = console_init\<lparr>ws := Some CLOSED, sessionState := Running, stdinData := ''say hi''\<rparr>"
  using sendStdin_cases
      [of "console_init\<lparr>ws := Some OPEN, isConnected := True, sessionState := Running,
             stdinData := ''say hi''\<rparr> :: int console"]
    sendStdin_cases
      [of "console_init\<lparr>ws := Some CLOSING, isConnected := True, sessionState := Running,
             stdinData := ''say hi''\<rparr> :: int console"]
    sendStdin_cases
      [of "console_init\<lparr>ws := Some OPEN, isConnected := True, sessionState := Running\<rparr>
             :: int console"]
    sendStdin_cases
      [of "console_init\<lparr>ws := Some CLOSED, sessionState := Running,
             stdinData := ''say hi''\<rparr> :: int console"]
  by (simp add: console_init_def)

text \<open>
  C6. Decoding is claimed to be non-fatal for every inbound text, with no exception
  escaping the message handler. The text \<open>null\<close> parses to \<open>null\<close>; reading its
  discriminator throws a TypeError that escapes both handlers, and nothing is logged.
\<close>

theorem null_frame_throws:
  "JSON_parse example_runtime ''null'' = Some JNull
   \<and> handleMessage example_runtime ''null''
        (console_init\<lparr>ws := Some OPEN, isConnected := True\<rparr>)
      = Throw TypeError (console_init\<lparr>ws := Some OPEN, isConnected := True\<rparr>)
   \<and> handleWsMessage example_runtime ''null''
        (panel_init\<lparr>panel_ws := Some OPEN, isWsConnected := True, terminal := Some []\<rparr>)
      = Throw TypeError
          (panel_init\<lparr>panel_ws := Some OPEN, isWsConnected := True, terminal := Some []\<rparr>)"
  by (simp add: handleMessage_def handleWsMessage_def example_runtime_def example_parse_def)

text \<open>
  C7. Kill makes no local phase change, whatever the state. It transmits a frame exactly
  when the phase is Running and the socket is open, and that frame is \<open>kill\<close>. The phase
  left by kill turns Exited when an exit frame is handled.
\<close>

theorem killProcess_keeps_phase:
  "sessionState (killProcess s) = sessionState s
   \<and> sent (killProcess s) =
       (if sessionState s = Running \<and> ws s = Some OPEN
        then sent s @ [JObj [(''action'', JStr ''kill'')]] else sent s)
   \<and> (JSON_parse rt raw = Some msg \<and> getProp msg ''type'' = Inr (JStr ''exit'') \<longrightarrow>
        sessionState (onmessage rt raw (killProcess s)) = Exited)"
  by (simp add: killProcess_def sendWsMessage_def addLog_def onmessage_def handleMessage_def
      addLogT_def split: sum.split)

theorem killProcess_keeps_phase_witness:
  \<open>JSON_parse example_runtime ''{"type":"exit","code":1}''
      = Some (JObj [(''type'', JStr ''exit''), (''code'', JNum 1)])
   \<and> getProp (JObj [(''type'', JStr ''exit''), (''code'', JNum 1)] :: int jsval) ''type''
      = Inr (JStr ''exit'')
   \<and> sessionState (killProcess
        (console_init\<lparr>ws := Some OPEN, isConnected := True, sessionState := Running\<rparr>
           :: int console)) = Running
   \<and> sent (killProcess
        (console_init\<lparr>ws := Some OPEN, isConnected := True, sessionState := Running\<rparr>
           :: int console)) = [JObj [(''action'', JStr ''kill'')]]
   \<and> sessionState (onmessage example_runtime ''{"type":"exit","code":1}''
        (killProcess
          (console_init\<lparr>ws := Some OPEN, isConnected := True, sessionState := Running\<rparr>)))
      = Exited\<close>
  using killProcess_keeps_phase
      [of "console_init\<lparr>ws := Some OPEN, isConnected := True, sessionState := Running\<rparr>"
          example_runtime \<open>''{"type":"exit","code":1}''\<close>
          "JObj [(''type'', JStr ''exit''), (''code'', JNum 1)]"]
  by (simp add: example_runtime_def example_parse_def console_init_def)

text \<open>
  C8. The status query is claimed to be issued after every transition to Exited. It is
  issued on mount (\<open>onMounted_polls\<close>), on close (\<open>panel_onclose_polls\<close>) and after an
  exit frame (\<open>handleWsMessage_exit_polls\<close>), and a failed query sets the status to
  \<open>error\<close>, keeps the response and leaves the phase (\<open>checkStatus_resume_failure\<close>,
  \<open>checkStatus_resume_keeps_phase\<close>). A backend error frame moves the panel from
  Running to Exited without issuing the query, where the exit frame issues one.
\<close>

theorem panel_backend_error_no_status_poll:
  \<open>returns (handleWsMessage example_runtime ''{"type":"error","message":"boom"}''
      (panel_init\<lparr>panel_ws := Some OPEN, isWsConnected := True, panel_sessionState := Running,
         terminal := Some []\<rparr>))
   \<and> panel_sessionState (state_of
        (handleWsMessage example_runtime ''{"type":"error","message":"boom"}''
          (panel_init\<lparr>panel_ws := Some OPEN, isWsConnected := True,
             panel_sessionState := Running, terminal := Some []\<rparr>))) = Exited
   \<and> statusQueries (state_of
        (handleWsMessage example_runtime ''{"type":"error","message":"boom"}''
          (panel_init\<lparr>panel_ws := Some OPEN, isWsConnected := True,
             panel_sessionState := Running, terminal := Some []\<rparr>))) = 0
   \<and> statusQueries (state_of
        (handleWsMessage example_runtime ''{"type":"exit","code":1}''
          (panel_init\<lparr>panel_ws := Some OPEN, isWsConnected := True,
             panel_sessionState := Running, terminal := Some []\<rparr>))) = 1\<close>
  by (simp add: handleWsMessage_def example_runtime_def example_parse_def panel_init_def
      termCallT_def propOf_def checkStatus_def show_int_def)

text \<open>
  C9. With the script \<open>update\<close> selected and the socket open, start (from a phase other
  than Running, or confirmed) transmits as its last frame \<open>start\<close> with script \<open>update\<close>;
  handling the frame \<open>started{script:"update"}\<close> afterwards returns and leaves the script
  name \<open>update\<close> with the phase Running.
\<close>

theorem start_update_roundtrip:
  assumes "selectedScript s = ''update''" and "ws s = Some OPEN"
    and "sessionState s \<noteq> Running \<or> confirmed"
    and "JSON_parse rt raw = Some msg"
    and "getProp msg ''type'' = Inr (JStr ''started'')"
    and "getProp msg ''script'' = Inr (JStr ''update'')"
  shows "sent (startScript confirmed s) =
           sent s @ (if sessionState s = Running then [JObj [(''action'', JStr ''kill'')]] else [])
             @ [JObj [(''action'', JStr ''start''), (''script'', JStr ''update'')]]
         \<and> getProp (last (sent (startScript confirmed s))) ''script'' = Inr (JStr ''update'')
         \<and> returns (handleMessage rt raw (startScript confirmed s))
         \<and> scriptName (onmessage rt raw (startScript confirmed s)) = JStr ''update''
         \<and> sessionState (onmessage rt raw (startScript confirmed s)) = Running"
  using assms
  by (auto simp add: startScript_def killProcess_def sendWsMessage_def addLog_def Let_def
      onmessage_def handleMessage_def addLogT_def propOf_def)

theorem start_update_roundtrip_witness:
  \<open>selectedScript (console_init\<lparr>ws := Some OPEN, isConnected := True,
       selectedScript := ''update''\<rparr> :: int console) = ''update''
   \<and> ws (console_init\<lparr>ws := Some OPEN, isConnected := True,
       selectedScript := ''update''\<rparr> :: int console) = Some OPEN
   \<and> sessionState (console_init\<lparr>ws := Some OPEN, isConnected := True,
       selectedScript := ''update''\<rparr> :: int console) \<noteq> Running
   \<and> JSON_parse example_runtime ''{"type":"started","script":"update"}''
       = Some (JObj [(''type'', JStr ''started''), (''script'', JStr ''update'')])
   \<and> getProp (JObj [(''type'', JStr ''started''), (''script'', JStr ''update'')] :: int jsval)
       ''type'' = Inr (JStr ''started'')
   \<and> getProp (JObj [(''type'', JStr ''started''), (''script'', JStr ''update'')] :: int jsval)
       ''script'' = Inr (JStr ''update'')
   \<and> sent (startScript False (console_init\<lparr>ws := Some OPEN, isConnected := True,
       selectedScript := ''update''\<rparr> :: int console))
       = [JObj [(''action'', JStr ''start''), (''script'', JStr ''update'')]]
   \<and> scriptName (onmessage example_runtime ''{"type":"started","script":"update"}''
        (startScript False (console_init\<lparr>ws := Some OPEN, isConnected := True,
           selectedScript := ''update''\<rparr>))) = JStr ''update''\<close>
  using start_update_roundtrip
      [of "console_init\<lparr>ws := Some OPEN, isConnected := True, selectedScript := ''update''\<rparr>"
          False example_runtime \<open>''{"type":"started","script":"update"}''\<close>
          "JObj [(''type'', JStr ''started''), (''script'', JStr ''update'')]"]
  by (simp add: example_runtime_def example_parse_def console_init_def)

text \<open>
  C10. Keyboard input in the panel is claimed to be forwarded exactly when the session is
  running and the socket is connected, and to be discarded silently otherwise. With the
  session running, the panel marked connected and the socket in \<open>CLOSING\<close>, a chunk is
  not forwarded and an error line is written to the terminal.
\<close>

theorem onData_closing_socket:
  "panel_sessionState (panel_init\<lparr>panel_ws := Some CLOSING, isWsConnected := True,
       panel_sessionState := Running, terminal := Some []\<rparr> :: int panel) = Running
   \<and> isWsConnected (panel_init\<lparr>panel_ws := Some CLOSING, isWsConnected := True,
       panel_sessionState := Running, terminal := Some []\<rparr> :: int panel)
   \<and> panel_sent (onData ''a'' (panel_init\<lparr>panel_ws := Some CLOSING, isWsConnected := True,
       panel_sessionState := Running, terminal := Some []\<rparr> :: int panel)) = []
   \<and> terminal (onData ''a'' (panel_init\<lparr>panel_ws := Some CLOSING, isWsConnected := True,
       panel_sessionState := Running, terminal := Some []\<rparr> :: int panel))
       = Some [Writeln ([CR, LF, ESC] @ ''[31m[Error] WebSocket is not connected.'' @ [ESC] @ ''[0m'')]"
  by (simp add: onData_def panel_sendWsMessage_def termCall_def panel_init_def)

text \<open>
  C10, as the listener has it: a chunk is forwarded as its own \<open>stdin\<close> frame, unchanged,
  exactly when the session is running, the panel is marked connected and the socket is
  open, and then nothing is written to the terminal. When the session is not running or
  the panel is not marked connected, the chunk is discarded and nothing changes. When
  the session is running and the panel is marked connected but the socket is not open, no
  frame is sent and the send routine reports that the socket is not connected.
\<close>

theorem onData_forwarding:
  "panel_sent (onData d p) =
     (if panel_sessionState p = Running \<and> isWsConnected p \<and> panel_ws p = Some OPEN
      then panel_sent p @ [JObj [(''action'', JStr ''stdin''), (''data'', JStr d)]]
      else panel_sent p)
   \<and> (panel_sessionState p = Running \<and> isWsConnected p \<and> panel_ws p = Some OPEN \<longrightarrow>
        terminal (onData d p) = terminal p)
   \<and> (panel_sessionState p \<noteq> Running \<or> \<not> isWsConnected p \<longrightarrow> onData d p = p)
   \<and> (panel_sessionState p = Running \<and> isWsConnected p \<and> panel_ws p \<noteq> Some OPEN \<longrightarrow>
        onData d p =
          termCall (Writeln ([CR, LF, ESC] @ ''[31m[Error] WebSocket is not connected.''
                      @ [ESC] @ ''[0m'')) p)"
  by (simp add: onData_def panel_sendWsMessage_def termCall_keeps)

theorem onData_forwarding_witness:
  "panel_sessionState (panel_init\<lparr>panel_ws := Some OPEN, isWsConnected := True,
       panel_sessionState := Running, terminal := Some []\<rparr> :: int panel) = Running
   \<and> isWsConnected (panel_init\<lparr>panel_ws := Some OPEN, isWsConnected := True,
       panel_sessionState := Running, terminal := Some []\<rparr> :: int panel)
   \<and> panel_ws (panel_init\<lparr>panel_ws := Some OPEN, isWsConnected := True,
       panel_sessionState := Running, terminal := Some []\<rparr> :: int panel) = Some OPEN
   \<and> panel_sent (onData ''a'' (panel_init\<lparr>panel_ws := Some OPEN, isWsConnected := True,
       panel_sessionState := Running, terminal := Some []\<rparr> :: int panel))
       = [JObj [(''action'', JStr ''stdin''), (''data'', JStr ''a'')]]
   \<and> terminal (onData ''a'' (panel_init\<lparr>panel_ws := Some OPEN, isWsConnected := True,
       panel_sessionState := Running, terminal := Some []\<rparr> :: int panel)) = Some []
   \<and> panel_sessionState (panel_init\<lparr>panel_ws := Some OPEN, isWsConnected := True,
       terminal := Some []\<rparr> :: int panel) \<noteq> Running
   \<and> onData ''a'' (panel_init\<lparr>panel_ws := Some OPEN, isWsConnected := True,
       terminal := Some []\<rparr> :: int panel)
       = panel_init\<lparr>panel_ws := Some OPEN, isWsConnected := True, terminal := Some []\<rparr>
   \<and> panel_ws (panel_init\<lparr>panel_ws := Some CLOSING, isWsConnected := True,
       panel_sessionState := Running\<rparr> :: int panel) \<noteq> Some OPEN
   \<and> panel_sent (onData ''a'' (panel_init\<lparr>panel_ws := Some CLOSING, isWsConnected := True,
       panel_sessionState := Running\<rparr> :: int panel)) = []"
  using onData_forwarding
      [of "''a''" "panel_init\<lparr>panel_ws := Some OPEN, isWsConnected := True,
             panel_sessionState := Running, terminal := Some []\<rparr> :: int panel"]
    onData_forwarding
      [of "''a''" "panel_init\<lparr>panel_ws := Some OPEN, isWsConnected := True,
             terminal := Some []\<rparr> :: int panel"]
    onData_forwarding
      [of "''a''" "panel_init\<lparr>panel_ws := Some CLOSING, isWsConnected := True,
             panel_sessionState := Running\<rparr> :: int panel"]
  by (simp add: panel_init_def termCall_def)

end
